theory Spec2Isabelle
  imports Main "HOL-Library.Word"
begin

section \<open>JavaScript values and errors\<close>

text \<open>
  The provider and the contract facade are TypeScript; their parameters are typed
  \<^verbatim>\<open>any\<close> at the RPC boundary. A raw value is one of the JavaScript values below.
  Numbers are modelled by their integer values and \<^verbatim>\<open>NaN\<close>. \<open>JBuiltin k\<close> is the
  member that every object literal inherits from \<^verbatim>\<open>Object.prototype\<close> under the key
  \<open>k\<close> (a function, or for \<^verbatim>\<open>__proto__\<close> the prototype object itself).
\<close>

datatype jsval =
    JUndefined
  | JNull
  | JBool bool
  | JNum int
  | JNaN
  | JStr string
  | JArr "jsval list"
  | JObj "(string \<times> jsval) list"
  | JBuiltin string

text \<open>JavaScript's \<^verbatim>\<open>ToBoolean\<close>: what \<^verbatim>\<open>!v\<close> and \<^verbatim>\<open>v || w\<close> test.\<close>

fun truthy :: "jsval \<Rightarrow> bool" where
  "truthy JUndefined = False"
| "truthy JNull = False"
| "truthy (JBool b) = b"
| "truthy (JNum n) = (n \<noteq> 0)"
| "truthy JNaN = False"
| "truthy (JStr s) = (s \<noteq> [])"
| "truthy (JArr xs) = True"
| "truthy (JObj kvs) = True"
| "truthy (JBuiltin k) = True"

text \<open>\<^verbatim>\<open>params[0]\<close>: reading an array past its end yields \<^verbatim>\<open>undefined\<close>.\<close>

fun index0 :: "jsval list \<Rightarrow> jsval" where
  "index0 [] = JUndefined"
| "index0 (x # xs) = x"

text \<open>
  Every \<^verbatim>\<open>throw\<close> of the source is a value of \<open>error\<close>. \<open>Error msg\<close> is
  \<^verbatim>\<open>new Error(msg)\<close> (\<^verbatim>\<open>new Error()\<close> has the empty message), \<open>TypeError\<close> is the
  exception the language itself raises, \<open>InvalidNumberOfParams\<close> is the error built by
  the function of that name, and the remaining tags are the error kinds of the
  specification (section 7).
\<close>

datatype error =
    Error string
  | TypeError
  | InvalidNumberOfParams nat nat "string option"
  | MethodNotFound
  | BadParams
  | InvalidTransaction
  | UnknownBlock
  | UnknownTransaction
  | BadFilter

section \<open>Hex encodings\<close>

type_synonym byte = "8 word"
type_synonym bytes = "byte list"

definition hexDigit :: "nat \<Rightarrow> char" where
  "hexDigit n = ''0123456789abcdef'' ! (n mod 16)"

fun hexDigits :: "nat \<Rightarrow> string" where
  "hexDigits n = (if n < 16 then [hexDigit n] else hexDigits (n div 16) @ [hexDigit (n mod 16)])"

text \<open>
  Modelled from the spec: \<^verbatim>\<open>numberToHex\<close> and \<^verbatim>\<open>bufferToHex\<close> are imported from
  \<^verbatim>\<open>utils\<close>, which is not among the sources. Section 6 fixes the encodings:
  quantities as minimal hex without leading zeros (except \<^verbatim>\<open>0x0\<close>), byte strings as
  0x-prefixed lowercase hex of exact length.
\<close>

definition numberToHex :: "nat \<Rightarrow> string" where
  "numberToHex n = ''0x'' @ hexDigits n"

definition byteToHex :: "byte \<Rightarrow> string" where
  "byteToHex b = [hexDigit (unat b div 16), hexDigit (unat b mod 16)]"

definition bufferToHex :: "bytes \<Rightarrow> string" where
  "bufferToHex bs = ''0x'' @ concat (map byteToHex bs)"

declare hexDigits.simps [simp del]

section \<open>Data model\<close>

text \<open>
  Modelled from the spec: the types of the world state, the blockchain and the typed
  requests are declared in modules that are not among the sources. They follow
  section 3: an address is a 20-byte identifier, a word a 32-byte unsigned integer, a
  hash a 32-byte digest. A digest is computed as a 256-bit word and kept as its 32
  bytes, most significant first (\<open>hashBytes\<close>), which is also how it keys the
  byte-keyed store of section 4.1.
\<close>

type_synonym Address = "160 word"
type_synonym Word = "256 word"
type_synonym Digest = "256 word"
type_synonym Hash = bytes

definition hashBytes :: "Digest \<Rightarrow> Hash" where
  "hashBytes d = map (\<lambda>i. ucast (drop_bit (8 * (31 - i)) d)) [0..<32]"

record Account =
  acc_nonce :: nat
  acc_balance :: nat
  acc_storage_root :: Hash
  acc_code_hash :: Hash

record WorldState =
  accounts :: "Address \<rightharpoonup> Account"
  storage :: "Address \<Rightarrow> Word \<Rightarrow> Word"
  code_store :: "Hash \<rightharpoonup> bytes"

record Transaction =
  tx_from :: "Address option"
  tx_to :: "Address option"
  tx_value :: nat
  tx_gas :: nat
  tx_gas_price :: nat
  tx_data :: bytes
  tx_nonce :: "nat option"

record Log =
  log_address :: Address
  log_topics :: "Hash list"
  log_data :: bytes

record Receipt =
  r_tx_hash :: Hash
  r_block_number :: nat
  r_tx_index :: nat
  r_from :: Address
  r_to :: "Address option"
  r_contract_address :: "Address option"
  r_cumulative_gas_used :: nat
  r_gas_used :: nat
  r_status :: nat
  r_logs :: "Log list"

record Block =
  b_number :: nat
  b_parent_hash :: Hash
  b_timestamp :: nat
  b_transactions :: "Transaction list"
  b_receipts :: "Receipt list"
  b_state_root :: Hash

record Blockchain =
  blocks :: "Block list"
  receipt_by_tx_hash :: "Hash \<rightharpoonup> Receipt"

text \<open>
  A topic slot of a log filter is absent (wildcard), a value, or a set of values
  (section 4.6).
\<close>

datatype TopicFilter = Wildcard | OneTopic Hash | AnyTopic "Hash list"

record LogRequest =
  lr_fromBlock :: nat
  lr_toBlock :: nat
  lr_address :: "Address option"
  lr_topics :: "TopicFilter list option"

text \<open>A log as \<^verbatim>\<open>eth_getLogs\<close> answers it: the log and where it stands in the chain.\<close>

record LogResponse =
  lg_log :: Log
  lg_block_number :: nat
  lg_tx_hash :: Hash
  lg_log_index :: nat

section \<open>The RPC dispatcher\<close>

text \<open>
  \<^verbatim>\<open>EvmProvider\<close> holds the world state and the blockchain. Its \<^verbatim>\<open>send\<close> calls
  functions imported from modules that are not among the sources; they are the fields
  of \<open>Imports\<close>. A handler receives the mutable objects the source passes to it and
  returns them with its result, so a handler may change exactly the objects it was
  given; a formatter that reads a raw value may throw.
\<close>

record EvmProvider =
  worldState :: WorldState
  blockchain :: Blockchain

record Imports =
  fromRawTransactionRequest :: "jsval \<Rightarrow> error + Transaction"
  fromRawCallRequest :: "jsval \<Rightarrow> error + Transaction"
  fromRawLogRequest :: "jsval \<Rightarrow> error + LogRequest"
  toRawLogResponse :: "LogResponse \<Rightarrow> jsval"
  toRawTransactionReceipt :: "Receipt option \<Rightarrow> jsval"
  addressFromString :: "jsval \<Rightarrow> error + Address"
  handleSendTransaction ::
    "WorldState \<Rightarrow> Blockchain \<Rightarrow> Transaction \<Rightarrow> (error + jsval) \<times> WorldState \<times> Blockchain"
  handleCall :: "WorldState \<Rightarrow> Transaction \<Rightarrow> (error + bytes) \<times> WorldState"
  handleGetTransactionReceipt ::
    "Blockchain \<Rightarrow> jsval \<Rightarrow> (error + Receipt option) \<times> Blockchain"
  getAccountCode :: "WorldState \<Rightarrow> Address \<Rightarrow> (error + bytes) \<times> WorldState"
  getLogs :: "Blockchain \<Rightarrow> LogRequest \<Rightarrow> (error + LogResponse list) \<times> Blockchain"

text \<open>
  \<^verbatim>\<open>send(method, params)\<close>. The first \<^verbatim>\<open>switch\<close> answers \<^verbatim>\<open>eth_gasPrice\<close>; then
  \<^verbatim>\<open>if (!params || !params[0]) throw new Error()\<close>; then the second \<^verbatim>\<open>switch\<close>,
  which has no \<^verbatim>\<open>default\<close>: for any other method the function ends without a
  \<^verbatim>\<open>return\<close>, and the promise resolves to \<^verbatim>\<open>undefined\<close>. An argument is
  evaluated before the handler it is passed to is called.
\<close>

definition send ::
  "Imports \<Rightarrow> EvmProvider \<Rightarrow> string \<Rightarrow> jsval list option \<Rightarrow> (error + jsval) \<times> EvmProvider"
where
  "send I this method params =
    (if method = ''eth_gasPrice'' then (Inr (JStr (numberToHex 50000)), this)
     else case params of
       None \<Rightarrow> (Inl (Error []), this)
     | Some ps \<Rightarrow>
        if \<not> truthy (index0 ps) then (Inl (Error []), this)
        else if method = ''eth_sendTransaction'' then
          (case fromRawTransactionRequest I (index0 ps) of
             Inl e \<Rightarrow> (Inl e, this)
           | Inr tx \<Rightarrow>
              (case handleSendTransaction I (worldState this) (blockchain this) tx of
                 (r, ws, bc) \<Rightarrow> (r, this\<lparr>worldState := ws, blockchain := bc\<rparr>)))
        else if method = ''eth_call'' then
          (case fromRawCallRequest I (index0 ps) of
             Inl e \<Rightarrow> (Inl e, this)
           | Inr req \<Rightarrow>
              (case handleCall I (worldState this) req of
                 (Inl e, ws) \<Rightarrow> (Inl e, this\<lparr>worldState := ws\<rparr>)
               | (Inr buf, ws) \<Rightarrow> (Inr (JStr (bufferToHex buf)), this\<lparr>worldState := ws\<rparr>)))
        else if method = ''eth_getTransactionReceipt'' then
          (case handleGetTransactionReceipt I (blockchain this) (index0 ps) of
             (Inl e, bc) \<Rightarrow> (Inl e, this\<lparr>blockchain := bc\<rparr>)
           | (Inr r, bc) \<Rightarrow> (Inr (toRawTransactionReceipt I r), this\<lparr>blockchain := bc\<rparr>))
        else if method = ''eth_getCode'' then
          (case addressFromString I (index0 ps) of
             Inl e \<Rightarrow> (Inl e, this)
           | Inr a \<Rightarrow>
              (case getAccountCode I (worldState this) a of
                 (Inl e, ws) \<Rightarrow> (Inl e, this\<lparr>worldState := ws\<rparr>)
               | (Inr buf, ws) \<Rightarrow> (Inr (JStr (bufferToHex buf)), this\<lparr>worldState := ws\<rparr>)))
        else if method = ''eth_getLogs'' then
          (case fromRawLogRequest I (index0 ps) of
             Inl e \<Rightarrow> (Inl e, this)
           | Inr req \<Rightarrow>
              (case getLogs I (blockchain this) req of
                 (Inl e, bc) \<Rightarrow> (Inl e, this\<lparr>blockchain := bc\<rparr>)
               | (Inr ls, bc) \<Rightarrow>
                  (Inr (JArr (map (toRawLogResponse I) ls)), this\<lparr>blockchain := bc\<rparr>)))
        else (Inr JUndefined, this))"

text \<open>
  The subscription methods of the provider. Each overload has the one body
  \<^verbatim>\<open>throw new Error('Method not implemented.')\<close>; the provider keeps no listener.
\<close>

definition EvmProvider_on :: "EvmProvider \<Rightarrow> jsval \<Rightarrow> 'l \<Rightarrow> error + EvmProvider" where
  "EvmProvider_on this notification listener = Inl (Error ''Method not implemented.'')"

definition removeListener :: "EvmProvider \<Rightarrow> jsval \<Rightarrow> 'l \<Rightarrow> error + EvmProvider" where
  "removeListener this notification listener = Inl (Error ''Method not implemented.'')"

definition removeAllListeners :: "EvmProvider \<Rightarrow> jsval \<Rightarrow> error + jsval" where
  "removeAllListeners this notification = Inl (Error ''Method not implemented.'')"

text \<open>The methods of section 6, the ones \<^verbatim>\<open>send\<close> has a case for.\<close>

definition implementedMethods :: "string list" where
  "implementedMethods =
    [''eth_gasPrice'', ''eth_sendTransaction'', ''eth_call'', ''eth_getTransactionReceipt'',
     ''eth_getCode'', ''eth_getLogs'']"

section \<open>Handlers modelled from the specification\<close>

text \<open>
  Modelled from the spec: \<^verbatim>\<open>hexToBuffer\<close> of \<^verbatim>\<open>utils\<close>, which is not among the
  sources. It reads a 0x-prefixed lowercase hex string (section 6) back into its
  bytes, for the transaction hash that \<^verbatim>\<open>eth_getTransactionReceipt\<close> receives.
\<close>

definition hexVal :: "char \<Rightarrow> nat option" where
  "hexVal c =
    map_of [(CHR ''0'', 0), (CHR ''1'', 1), (CHR ''2'', 2), (CHR ''3'', 3), (CHR ''4'', 4),
            (CHR ''5'', 5), (CHR ''6'', 6), (CHR ''7'', 7), (CHR ''8'', 8), (CHR ''9'', 9),
            (CHR ''a'', 10), (CHR ''b'', 11), (CHR ''c'', 12), (CHR ''d'', 13), (CHR ''e'', 14),
            (CHR ''f'', 15)] c"

fun hexToBytes :: "string \<Rightarrow> bytes option" where
  "hexToBytes [] = Some []"
| "hexToBytes [c] = None"
| "hexToBytes (c1 # c2 # cs) =
     (case hexVal c1 of
        None \<Rightarrow> None
      | Some h \<Rightarrow>
         (case hexVal c2 of
            None \<Rightarrow> None
          | Some l \<Rightarrow>
             (case hexToBytes cs of
                None \<Rightarrow> None
              | Some bs \<Rightarrow> Some (of_nat (16 * h + l) # bs))))"

definition hexToBuffer :: "string \<Rightarrow> bytes option" where
  "hexToBuffer s = (if take 2 s = ''0x'' then hexToBytes (drop 2 s) else None)"

text \<open>
  Modelled from the spec: the EVM interpreter (section 4.4), the signature facility
  and the digests are not among the sources, and section 4 specifies them as pure
  functions of their inputs; they are the fields of \<open>Env\<close>. The interpreter runs a
  message against an overlay and yields whether the top frame reverted, the return
  buffer, the gas left, the refund counter, the logs and the overlay with the frame's
  writes. An overlay is a copy of the world state: committing it replaces the world
  state, discarding it leaves the world state as it was.
\<close>

record Message =
  m_caller :: Address
  m_target :: "Address option"
  m_value :: nat
  m_gas :: nat
  m_data :: bytes

record ExecResult =
  ex_reverted :: bool
  ex_return :: bytes
  ex_gas_remaining :: nat
  ex_refunds :: nat
  ex_logs :: "Log list"
  ex_overlay :: WorldState
  ex_created :: "Address option"

record Env =
  execute :: "WorldState \<Rightarrow> Message \<Rightarrow> ExecResult"
  recoverSender :: "Transaction \<Rightarrow> Address option"
  txHash :: "Transaction \<Rightarrow> Digest"
  blockHash :: "Block \<Rightarrow> Digest"
  stateRoot :: "WorldState \<Rightarrow> Digest"
  emptyRoot :: Digest
  emptyCodeHash :: Digest
  coinbase :: Address
  timestamp :: nat

text \<open>
  Modelled from the spec: the world state's readers (section 4.3). An absent account
  reads as the zeroed default, absent code as the empty byte string.
\<close>

definition get_account :: "Env \<Rightarrow> WorldState \<Rightarrow> Address \<Rightarrow> Account" where
  "get_account E ws a =
    (case accounts ws a of
       Some acc \<Rightarrow> acc
     | None \<Rightarrow> \<lparr>acc_nonce = 0, acc_balance = 0, acc_storage_root = hashBytes (emptyRoot E),
                 acc_code_hash = hashBytes (emptyCodeHash E)\<rparr>)"

definition get_code :: "Env \<Rightarrow> WorldState \<Rightarrow> Address \<Rightarrow> bytes" where
  "get_code E ws a =
    (case code_store ws (acc_code_hash (get_account E ws a)) of Some c \<Rightarrow> c | None \<Rightarrow> [])"

definition put_account :: "WorldState \<Rightarrow> Address \<Rightarrow> Account \<Rightarrow> WorldState" where
  "put_account ws a acc = ws\<lparr>accounts := (accounts ws)(a \<mapsto> acc)\<rparr>"

definition credit :: "Env \<Rightarrow> WorldState \<Rightarrow> Address \<Rightarrow> nat \<Rightarrow> WorldState" where
  "credit E ws a amount =
    put_account ws a ((get_account E ws a)\<lparr>acc_balance := acc_balance (get_account E ws a) + amount\<rparr>)"

text \<open>
  Modelled from the spec: the transaction processor (section 4.5), whose module
  \<^verbatim>\<open>handle-send-transaction\<close> is not among the sources. Step 1 resolves the sender,
  step 2 validates, steps 3 to 8 are \<open>processTransaction\<close>.
\<close>

definition resolveSender :: "Env \<Rightarrow> Transaction \<Rightarrow> Address option" where
  "resolveSender E tx = (case tx_from tx of Some a \<Rightarrow> Some a | None \<Rightarrow> recoverSender E tx)"

definition validTransaction :: "Env \<Rightarrow> WorldState \<Rightarrow> Address \<Rightarrow> Transaction \<Rightarrow> bool" where
  "validTransaction E ws sender tx =
    (tx_gas tx * tx_gas_price tx + tx_value tx \<le> acc_balance (get_account E ws sender)
     \<and> (case tx_nonce tx of None \<Rightarrow> True | Some n \<Rightarrow> n = acc_nonce (get_account E ws sender)))"

text \<open>
  Modelled from the spec: step 5 of section 4.5, as the specification writes it
  (gas limit minus gas remaining plus refunds, the refunds capped at half), and the
  filling of an absent nonce from the sender's account (section 3).
\<close>

definition gasUsed :: "nat \<Rightarrow> ExecResult \<Rightarrow> nat" where
  "gasUsed gas_limit res =
    (let spent = gas_limit - ex_gas_remaining res
     in spent + min (ex_refunds res) (spent div 2))"

definition fillNonce :: "Env \<Rightarrow> WorldState \<Rightarrow> Address \<Rightarrow> Transaction \<Rightarrow> Transaction" where
  "fillNonce E ws sender tx = tx\<lparr>tx_nonce := Some (acc_nonce (get_account E ws sender))\<rparr>"

definition processTransaction ::
  "Env \<Rightarrow> WorldState \<Rightarrow> Blockchain \<Rightarrow> Address \<Rightarrow> Transaction \<Rightarrow> Hash \<times> WorldState \<times> Blockchain"
where
  "processTransaction E ws bc sender tx0 =
    (let tx = fillNonce E ws sender tx0;
         acc = get_account E ws sender;
         fee = tx_gas tx * tx_gas_price tx;
         ov1 = put_account ws sender
                 (acc\<lparr>acc_balance := acc_balance acc - fee, acc_nonce := acc_nonce acc + 1\<rparr>);
         res = execute E ov1
                 \<lparr>m_caller = sender, m_target = tx_to tx, m_value = tx_value tx,
                  m_gas = tx_gas tx, m_data = tx_data tx\<rparr>;
         used = gasUsed (tx_gas tx) res;
         ov2 = (if ex_reverted res then ov1 else ex_overlay res);
         ov3 = credit E ov2 sender ((tx_gas tx - used) * tx_gas_price tx);
         ov4 = credit E ov3 (coinbase E) (used * tx_gas_price tx);
         h = hashBytes (txHash E tx);
         receipt = \<lparr>r_tx_hash = h, r_block_number = length (blocks bc), r_tx_index = 0,
                    r_from = sender, r_to = tx_to tx,
                    r_contract_address =
                      (if tx_to tx = None \<and> \<not> ex_reverted res then ex_created res else None),
                    r_cumulative_gas_used = used, r_gas_used = used,
                    r_status = (if ex_reverted res then 0 else 1),
                    r_logs = (if ex_reverted res then [] else ex_logs res)\<rparr>;
         block = \<lparr>b_number = length (blocks bc),
                  b_parent_hash = (case blocks bc of [] \<Rightarrow> replicate 32 0
                                   | b # bs \<Rightarrow> hashBytes (blockHash E (last (b # bs)))),
                  b_timestamp = timestamp E, b_transactions = [tx], b_receipts = [receipt],
                  b_state_root = hashBytes (stateRoot E ov4)\<rparr>
     in (h, ov4,
         bc\<lparr>blocks := blocks bc @ [block],
            receipt_by_tx_hash := (receipt_by_tx_hash bc)(h \<mapsto> receipt)\<rparr>))"

definition handleSendTransaction_spec ::
  "Env \<Rightarrow> WorldState \<Rightarrow> Blockchain \<Rightarrow> Transaction \<Rightarrow> (error + jsval) \<times> WorldState \<times> Blockchain"
where
  "handleSendTransaction_spec E ws bc tx =
    (case resolveSender E tx of
       None \<Rightarrow> (Inl InvalidTransaction, ws, bc)
     | Some sender \<Rightarrow>
        if validTransaction E ws sender tx then
          (case processTransaction E ws bc sender tx of
             (h, ws', bc') \<Rightarrow> (Inr (JStr (bufferToHex h)), ws', bc'))
        else (Inl InvalidTransaction, ws, bc))"

text \<open>
  Modelled from the spec: \<^verbatim>\<open>handle-call\<close> is not among the sources. Section 2: a
  call-only request runs the interpreter against a throwaway overlay, the result is
  the returned data, and nothing is committed. A request without \<^verbatim>\<open>from\<close> is run
  for the zero address.
\<close>

definition callMessage :: "Transaction \<Rightarrow> Message" where
  "callMessage req =
    \<lparr>m_caller = (case tx_from req of Some a \<Rightarrow> a | None \<Rightarrow> 0),
     m_target = tx_to req, m_value = tx_value req, m_gas = tx_gas req, m_data = tx_data req\<rparr>"

definition handleCall_spec ::
  "Env \<Rightarrow> WorldState \<Rightarrow> Transaction \<Rightarrow> (error + bytes) \<times> WorldState"
where
  "handleCall_spec E ws req = (Inr (ex_return (execute E ws (callMessage req))), ws)"

text \<open>
  Modelled from the spec: \<^verbatim>\<open>handle-get-transaction-receipt\<close> is not among the
  sources. Section 4.6: a direct lookup in \<open>receipt_by_tx_hash\<close>; section 6: the
  answer is the receipt or null. A parameter that is not the hex of a 32-byte hash is
  refused as \<open>BadParams\<close>.
\<close>

definition handleGetTransactionReceipt_spec ::
  "Blockchain \<Rightarrow> jsval \<Rightarrow> (error + Receipt option) \<times> Blockchain"
where
  "handleGetTransactionReceipt_spec bc raw =
    (case raw of
       JStr s \<Rightarrow>
        (case hexToBuffer s of
           None \<Rightarrow> (Inl BadParams, bc)
         | Some h \<Rightarrow>
            if length h = 32 then (Inr (receipt_by_tx_hash bc h), bc) else (Inl BadParams, bc))
     | _ \<Rightarrow> (Inl BadParams, bc))"

text \<open>
  Modelled from the spec: \<^verbatim>\<open>getAccountCode\<close> of the \<^verbatim>\<open>vm\<close> module, which is not among
  the sources, as \<open>get_code\<close> of section 4.3.
\<close>

definition getAccountCode_spec ::
  "Env \<Rightarrow> WorldState \<Rightarrow> Address \<Rightarrow> (error + bytes) \<times> WorldState"
where
  "getAccountCode_spec E ws a = (Inr (get_code E ws a), ws)"

text \<open>
  Modelled from the spec: \<^verbatim>\<open>handle-get-logs\<close> is not among the sources. Section 4.6:
  a filter whose \<open>fromBlock\<close> is greater than its \<open>toBlock\<close> fails with \<open>BadFilter\<close>;
  otherwise the logs of the blocks in range that match the address and the topic
  slots are answered in block-then-log-index order. The log index is an access path
  to the same logs and is left out.
\<close>

definition slotMatch :: "TopicFilter \<Rightarrow> Hash \<Rightarrow> bool" where
  "slotMatch f t = (case f of Wildcard \<Rightarrow> True | OneTopic v \<Rightarrow> t = v | AnyTopic vs \<Rightarrow> t \<in> set vs)"

fun topicsMatch :: "TopicFilter list \<Rightarrow> Hash list \<Rightarrow> bool" where
  "topicsMatch [] ts = True"
| "topicsMatch (f # fs) [] = False"
| "topicsMatch (f # fs) (t # ts) = (slotMatch f t \<and> topicsMatch fs ts)"

definition logMatches :: "LogRequest \<Rightarrow> LogResponse \<Rightarrow> bool" where
  "logMatches req l =
    ((case lr_address req of None \<Rightarrow> True | Some a \<Rightarrow> log_address (lg_log l) = a)
     \<and> (case lr_topics req of None \<Rightarrow> True | Some fs \<Rightarrow> topicsMatch fs (log_topics (lg_log l))))"

definition blockLogs :: "Block \<Rightarrow> LogResponse list" where
  "blockLogs b =
    map (\<lambda>(i, (l, h)). \<lparr>lg_log = l, lg_block_number = b_number b, lg_tx_hash = h, lg_log_index = i\<rparr>)
      (enumerate 0 (concat (map (\<lambda>r. map (\<lambda>l. (l, r_tx_hash r)) (r_logs r)) (b_receipts b))))"

definition getLogs_spec ::
  "Blockchain \<Rightarrow> LogRequest \<Rightarrow> (error + LogResponse list) \<times> Blockchain"
where
  "getLogs_spec bc req =
    (if lr_fromBlock req > lr_toBlock req then (Inl BadFilter, bc)
     else
       (Inr (filter (logMatches req)
              (concat (map blockLogs
                 (filter (\<lambda>b. lr_fromBlock req \<le> b_number b \<and> b_number b \<le> lr_toBlock req)
                    (blocks bc))))),
        bc))"

text \<open>
  Modelled from the spec: the imports of \<^verbatim>\<open>send\<close> with the five handlers as the
  specification describes them; the formatters stay those of \<open>F\<close>.
\<close>

definition specHandlers :: "Env \<Rightarrow> Imports \<Rightarrow> Imports" where
  "specHandlers E F =
    F\<lparr>handleSendTransaction := handleSendTransaction_spec E,
      handleCall := handleCall_spec E,
      handleGetTransactionReceipt := handleGetTransactionReceipt_spec,
      getAccountCode := getAccountCode_spec E,
      getLogs := getLogs_spec\<rparr>"

section \<open>The contract facade\<close>

text \<open>
  An object literal \<^verbatim>\<open>{}\<close> inherits from \<^verbatim>\<open>Object.prototype\<close>: reading a key it does
  not own yields the inherited member under that key, when there is one, and
  \<^verbatim>\<open>undefined\<close> otherwise. These are the keys of \<^verbatim>\<open>Object.prototype\<close>.
\<close>

definition objectPrototypeKeys :: "string list" where
  "objectPrototypeKeys =
    [''constructor'', ''hasOwnProperty'', ''isPrototypeOf'', ''propertyIsEnumerable'',
     ''toLocaleString'', ''toString'', ''valueOf'', ''__proto__'',
     ''__defineGetter__'', ''__defineSetter__'', ''__lookupGetter__'', ''__lookupSetter__'']"

text \<open>\<^verbatim>\<open>obj[k]\<close> for an object given by its own properties.\<close>

definition jsGet :: "(string \<times> jsval) list \<Rightarrow> string \<Rightarrow> jsval" where
  "jsGet kvs k =
    (case map_of kvs k of
       Some v \<Rightarrow> v
     | None \<Rightarrow> if k \<in> set objectPrototypeKeys then JBuiltin k else JUndefined)"

text \<open>
  \<^verbatim>\<open>xs.map(f)\<close> where \<open>f\<close> may throw: the elements are visited in order and the first
  exception ends the call.
\<close>

fun mapE :: "('a \<Rightarrow> error + 'b) \<Rightarrow> 'a list \<Rightarrow> error + 'b list" where
  "mapE f [] = Inr []"
| "mapE f (x # xs) =
     (case f x of
        Inl e \<Rightarrow> Inl e
      | Inr y \<Rightarrow> (case mapE f xs of Inl e \<Rightarrow> Inl e | Inr ys \<Rightarrow> Inr (y # ys)))"

text \<open>
  \<^verbatim>\<open>s.toLowerCase()\<close> on the letters A to Z. No other character lowers to a letter
  of \<^verbatim>\<open>allevents\<close>, the one string the result is compared with.
\<close>

definition toLowerCase :: "string \<Rightarrow> string" where
  "toLowerCase s =
    map (\<lambda>c. case map_of (zip ''ABCDEFGHIJKLMNOPQRSTUVWXYZ'' ''abcdefghijklmnopqrstuvwxyz'') c of
               Some l \<Rightarrow> l
             | None \<Rightarrow> c) s"

text \<open>\<^verbatim>\<open>s.replace('0x', '')\<close>: the first occurrence of \<^verbatim>\<open>0x\<close> is removed.\<close>

fun replace0x :: "string \<Rightarrow> string" where
  "replace0x [] = []"
| "replace0x (c # cs) = (if take 2 (c # cs) = ''0x'' then drop 2 (c # cs) else c # replace0x cs)"

text \<open>
  The types \<^verbatim>\<open>AbiDefinition\<close>, \<^verbatim>\<open>ContractOptions\<close>, \<^verbatim>\<open>GetLogOptions\<close>, \<^verbatim>\<open>EventLog\<close>,
  \<^verbatim>\<open>TransactionReceipt\<close>, \<^verbatim>\<open>Tx\<close>, \<^verbatim>\<open>Subscription\<close> and \<^verbatim>\<open>Wallet\<close> are declared in
  modules that are not among the sources. The records below hold the fields that
  \<^verbatim>\<open>contract.ts\<close> reads and writes; an optional field is an \<open>option\<close>. A \<open>Tx\<close> is
  the record of the arguments its constructor receives from the contract; the
  \<^verbatim>\<open>eth\<close> object and the formatters, which are the same for every \<open>Tx\<close> of a contract,
  are left out. A subscription records what it was created with and what has been
  emitted on it. The remaining fields of a receipt are \<open>otherFields\<close>.

  A contract method is typed to return a \<open>Tx\<close>. At run time the value is a \<open>Tx\<close>
  built by the method (\<open>NewTx\<close>), or whatever a callee that is not a generated method
  returned (\<open>Returned\<close>).
\<close>

record AbiInput =
  in_name :: string
  in_type :: string
  in_indexed :: "bool option"

record AbiDefinition =
  abi_type :: string
  abi_name :: "string option"
  abi_inputs :: "AbiInput list option"
  abi_signature :: "string option"
  abi_anonymous :: "bool option"

typedecl Wallet

record ContractOptions =
  opt_from :: "Address option"
  opt_gasPrice :: "string option"
  opt_gas :: "int option"

record Contract =
  jsonInterface :: "AbiDefinition list"
  address :: "Address option"
  options :: ContractOptions
  wallet :: "Wallet option"

record Tx =
  txc_definition :: AbiDefinition
  txc_address :: Address
  txc_args :: "jsval list"
  txc_options :: ContractOptions
  txc_wallet :: "Wallet option"

datatype TxResult = NewTx Tx | Returned jsval

type_synonym TxFactory = "Contract \<Rightarrow> jsval list \<Rightarrow> error + TxResult"

record GetLogOptions =
  glo_filter :: "(string \<times> jsval) list option"
  glo_fromBlock :: "jsval option"
  glo_toBlock :: "jsval option"
  glo_address :: "Address option"
  glo_topics :: "jsval list option"

record EventLog =
  event :: "string option"
  returnValues :: jsval
  sourceLog :: LogResponse

datatype emitted = Data EventLog | Failed error

record Subscription =
  sub_type :: string
  sub_subscription :: string
  sub_params :: "jsval list"
  sub_emitted :: "emitted list"

record 'r TransactionReceipt =
  otherFields :: 'r
  logs :: "LogResponse list option"
  events :: "(string \<rightharpoonup> EventLog list) option"
  unnamedEvents :: "EventLog list option"

text \<open>
  \<^verbatim>\<open>Eth\<close> (\<^verbatim>\<open>eth.ts\<close>) holds the provider. \<open>requests\<close> is the list of the requests
  that have been handed to the provider's \<^verbatim>\<open>send\<close>, in order: the effect by which
  issuing an RPC request is observed. A request payload is a method, its params and
  the formatter of the answer.
\<close>

record 'p Eth =
  provider :: 'p
  requests :: "(string \<times> jsval list option) list"

type_synonym 'a Payload = "string \<times> jsval list option \<times> (jsval \<Rightarrow> error + 'a)"

text \<open>
  The functions that \<^verbatim>\<open>contract.ts\<close> and \<^verbatim>\<open>eth.ts\<close> import from modules that are not
  among the sources, and the provider's \<^verbatim>\<open>send\<close>, are the fields of
  \<open>ContractImports\<close>. Each may throw.

  The last three fields are what the language does with the \<^verbatim>\<open>methods\<close> object
  beyond its own properties. \<open>callInherited k args\<close> is the call
  \<^verbatim>\<open>nextOverload(...args)\<close> when \<^verbatim>\<open>nextOverload\<close> is the member that \<^verbatim>\<open>{}\<close> inherits
  under the key \<open>k\<close>. Assigning to the key \<^verbatim>\<open>__proto__\<close> replaces the prototype of
  the object by the assigned function; from then on \<open>reparentedGet k\<close> is the read of
  a key the object does not own (the value when it is truthy, or an exception), and
  \<open>reparentedSet k\<close> says whether assigning to such a key creates the property, is
  ignored or throws.
\<close>

datatype setOutcome = Assigned | Ignored | Throws error

record 'p ContractImports =
  providerSend :: "'p \<Rightarrow> string \<Rightarrow> jsval list option \<Rightarrow> (error + jsval) \<times> 'p"
  requestGetPastLogs :: "GetLogOptions \<Rightarrow> error + LogResponse list Payload"
  inputLogFormatter :: "GetLogOptions \<Rightarrow> error + jsval"
  decodeAnyEvent :: "AbiDefinition list \<Rightarrow> LogResponse \<Rightarrow> error + EventLog"
  encodeParameter :: "string \<Rightarrow> jsval \<Rightarrow> error + jsval"
  subscribe :: "Subscription \<Rightarrow> 'p Eth \<Rightarrow> (error + Subscription) \<times> 'p Eth"
  abiMethodToString :: "AbiDefinition \<Rightarrow> error + string"
  encodeFunctionSignature :: "string \<Rightarrow> error + string"
  callInherited :: "string \<Rightarrow> jsval list \<Rightarrow> error + TxResult"
  reparentedGet :: "string \<Rightarrow> error + TxFactory option"
  reparentedSet :: "string \<Rightarrow> setOutcome"

text \<open>
  \<^verbatim>\<open>Eth.send\<close>: \<^verbatim>\<open>format(await this.provider.send(method, params))\<close>, and
  \<^verbatim>\<open>Eth.getPastLogs\<close>, which sends the payload \<^verbatim>\<open>this.request.getPastLogs(options)\<close>.
\<close>

definition Eth_send :: "'p ContractImports \<Rightarrow> 'a Payload \<Rightarrow> 'p Eth \<Rightarrow> (error + 'a) \<times> 'p Eth" where
  "Eth_send CI payload eth =
    (case payload of
       (method, params, format) \<Rightarrow>
        (case providerSend CI (provider eth) method params of
           (Inl e, p) \<Rightarrow> (Inl e, eth\<lparr>provider := p, requests := requests eth @ [(method, params)]\<rparr>)
         | (Inr v, p) \<Rightarrow>
            (format v, eth\<lparr>provider := p, requests := requests eth @ [(method, params)]\<rparr>)))"

definition getPastLogs ::
  "'p ContractImports \<Rightarrow> GetLogOptions \<Rightarrow> 'p Eth \<Rightarrow> (error + LogResponse list) \<times> 'p Eth"
where
  "getPastLogs CI opts eth =
    (case requestGetPastLogs CI opts of
       Inl e \<Rightarrow> (Inl e, eth)
     | Inr payload \<Rightarrow> Eth_send CI payload eth)"

text \<open>
  \<^verbatim>\<open>executorFactory(definition, nextOverload)\<close> returns a closure over the contract;
  the closure reads \<^verbatim>\<open>this.address\<close>, \<^verbatim>\<open>this.options\<close> and \<^verbatim>\<open>this.wallet\<close> when it is
  called, so a \<open>TxFactory\<close> takes the contract as it is at the call. The rest
  parameter \<^verbatim>\<open>args\<close> is always an array, which is truthy.
\<close>

definition executorFactory :: "AbiDefinition \<Rightarrow> TxFactory option \<Rightarrow> TxFactory" where
  "executorFactory definition nextOverload = (\<lambda>this args.
    case address this of
      None \<Rightarrow> Inl (Error ''No contract address.'')
    | Some addr \<Rightarrow>
       if (\<not> truthy (JArr args)
             \<and> (case abi_inputs definition of None \<Rightarrow> False | Some ins \<Rightarrow> length ins > 0))
          \<or> (case abi_inputs definition of None \<Rightarrow> False | Some ins \<Rightarrow> length args \<noteq> length ins)
       then
         (case nextOverload of
            Some f \<Rightarrow> f this args
          | None \<Rightarrow>
             Inl (InvalidNumberOfParams (length args)
                    (case abi_inputs definition of None \<Rightarrow> 0 | Some ins \<Rightarrow> length ins)
                    (abi_name definition)))
       else
         Inr (NewTx \<lparr>txc_definition = definition, txc_address = addr, txc_args = args,
                     txc_options = options this, txc_wallet = wallet this\<rparr>))"

text \<open>
  \<^verbatim>\<open>getMethods\<close>. The table \<^verbatim>\<open>methods\<close> starts as \<^verbatim>\<open>{}\<close>: \<open>own\<close> are its own
  properties, \<open>reparented\<close> says whether its prototype has been replaced. Reading a
  key (\<open>objGet\<close>) yields the own property, else the member inherited from
  \<^verbatim>\<open>Object.prototype\<close> (a function that is called through \<open>callInherited\<close>), else
  nothing; every value the table can hold is truthy, so \<^verbatim>\<open>!methods[name]\<close> is the test
  for nothing. Assigning (\<open>objSet\<close>) creates or overwrites the own property, except
  under the key \<^verbatim>\<open>__proto__\<close>.
\<close>

record MethodsObj =
  own :: "string \<rightharpoonup> TxFactory"
  reparented :: bool

definition objGet :: "'p ContractImports \<Rightarrow> MethodsObj \<Rightarrow> string \<Rightarrow> error + TxFactory option" where
  "objGet CI obj k =
    (case own obj k of
       Some f \<Rightarrow> Inr (Some f)
     | None \<Rightarrow>
        if reparented obj then reparentedGet CI k
        else if k \<in> set objectPrototypeKeys then Inr (Some (\<lambda>this args. callInherited CI k args))
        else Inr None)"

definition objSet ::
  "'p ContractImports \<Rightarrow> MethodsObj \<Rightarrow> string \<Rightarrow> TxFactory \<Rightarrow> error + MethodsObj"
where
  "objSet CI obj k v =
    (if k = ''__proto__'' then Inr (obj\<lparr>reparented := True\<rparr>)
     else if reparented obj \<and> own obj k = None then
       (case reparentedSet CI k of
          Assigned \<Rightarrow> Inr (obj\<lparr>own := (own obj)(k \<mapsto> v)\<rparr>)
        | Ignored \<Rightarrow> Inr obj
        | Throws e \<Rightarrow> Inl e)
     else Inr (obj\<lparr>own := (own obj)(k \<mapsto> v)\<rparr>))"

text \<open>
  The body of the \<^verbatim>\<open>forEach\<close>. \<^verbatim>\<open>const name = method.name!\<close>: an absent name is the
  key \<^verbatim>\<open>undefined\<close>. \<open>signedMethod\<close> is the definition after
  \<^verbatim>\<open>method.signature = abi.encodeFunctionSignature(funcName)\<close>, with \<^verbatim>\<open>funcName\<close>.
  \<open>generatedMethod\<close> is the function stored under the name: \<^verbatim>\<open>func\<close> when
  \<^verbatim>\<open>methods[name]\<close> holds nothing, else \<^verbatim>\<open>cascadeFunc\<close>, whose next overload is what
  \<^verbatim>\<open>methods[name]\<close> holds. Then \<^verbatim>\<open>func\<close> is stored under the signature and under
  \<^verbatim>\<open>funcName\<close>.
\<close>

definition methodName :: "AbiDefinition \<Rightarrow> string" where
  "methodName method = (case abi_name method of Some n \<Rightarrow> n | None \<Rightarrow> ''undefined'')"

definition signedMethod :: "'p ContractImports \<Rightarrow> AbiDefinition \<Rightarrow> error + string \<times> string \<times> AbiDefinition" where
  "signedMethod CI method =
    (case abiMethodToString CI method of
       Inl e \<Rightarrow> Inl e
     | Inr funcName \<Rightarrow>
        (case encodeFunctionSignature CI funcName of
           Inl e \<Rightarrow> Inl e
         | Inr sig \<Rightarrow> Inr (funcName, sig, method\<lparr>abi_signature := Some sig\<rparr>)))"

definition generatedMethod :: "'p ContractImports \<Rightarrow> MethodsObj \<Rightarrow> AbiDefinition \<Rightarrow> error + TxFactory" where
  "generatedMethod CI methods method =
    (case objGet CI methods (methodName method) of
       Inl e \<Rightarrow> Inl e
     | Inr None \<Rightarrow> Inr (executorFactory method None)
     | Inr (Some registered) \<Rightarrow> Inr (executorFactory method (Some registered)))"

definition registerMethod :: "'p ContractImports \<Rightarrow> MethodsObj \<Rightarrow> AbiDefinition \<Rightarrow> error + MethodsObj" where
  "registerMethod CI methods method0 =
    (case signedMethod CI method0 of
       Inl e \<Rightarrow> Inl e
     | Inr (funcName, sig, method) \<Rightarrow>
        (case generatedMethod CI methods method of
           Inl e \<Rightarrow> Inl e
         | Inr entry \<Rightarrow>
            (case objSet CI methods (methodName method) entry of
               Inl e \<Rightarrow> Inl e
             | Inr m1 \<Rightarrow>
                (case objSet CI m1 sig (executorFactory method None) of
                   Inl e \<Rightarrow> Inl e
                 | Inr m2 \<Rightarrow> objSet CI m2 funcName (executorFactory method None)))))"

fun registerAll :: "'p ContractImports \<Rightarrow> MethodsObj \<Rightarrow> AbiDefinition list \<Rightarrow> error + MethodsObj" where
  "registerAll CI methods [] = Inr methods"
| "registerAll CI methods (method # rest) =
     (case registerMethod CI methods method of
        Inl e \<Rightarrow> Inl e
      | Inr methods' \<Rightarrow> registerAll CI methods' rest)"

definition getMethods :: "'p ContractImports \<Rightarrow> AbiDefinition list \<Rightarrow> error + MethodsObj" where
  "getMethods CI contractDefinition =
    registerAll CI \<lparr>own = Map.empty, reparented = False\<rparr>
      (filter (\<lambda>method. abi_type method = ''function'') contractDefinition)"

text \<open>
  \<^verbatim>\<open>getEventTopics\<close>: the signature topic of a named event, then one entry for each
  indexed input, read from \<^verbatim>\<open>options.filter || {}\<close>.
\<close>

definition topicOf :: "'p ContractImports \<Rightarrow> GetLogOptions \<Rightarrow> AbiInput \<Rightarrow> error + jsval" where
  "topicOf CI opts input =
    (let filter = (case glo_filter opts of Some f \<Rightarrow> f | None \<Rightarrow> []);
         value = jsGet filter (in_name input)
     in if \<not> truthy value then Inr JNull
        else case value of
          JArr vs \<Rightarrow> map_sum id JArr (mapE (encodeParameter CI (in_type input)) vs)
        | _ \<Rightarrow> encodeParameter CI (in_type input) value)"

definition getEventTopics ::
  "'p ContractImports \<Rightarrow> AbiDefinition \<Rightarrow> GetLogOptions \<Rightarrow> error + jsval list"
where
  "getEventTopics CI ev opts =
    (let topics =
           (case abi_signature ev of
              Some sig \<Rightarrow> if abi_anonymous ev \<noteq> Some True \<and> sig \<noteq> [] then [JStr sig] else []
            | None \<Rightarrow> [])
     in map_sum id (\<lambda>indexedTopics. topics @ indexedTopics)
          (mapE (topicOf CI opts)
             (filter (\<lambda>input. in_indexed input = Some True)
                (case abi_inputs ev of Some ins \<Rightarrow> ins | None \<Rightarrow> []))))"

text \<open>
  \<^verbatim>\<open>getLogOptions(eventName = 'allevents', options)\<close>: the address check comes first.
\<close>

definition getLogOptions ::
  "'p ContractImports \<Rightarrow> Contract \<Rightarrow> string option \<Rightarrow> GetLogOptions \<Rightarrow> error + GetLogOptions"
where
  "getLogOptions CI this eventNameArg opts =
    (let eventName = (case eventNameArg of Some n \<Rightarrow> n | None \<Rightarrow> ''allevents'')
     in case address this of
          None \<Rightarrow>
            Inl (Error ''This contract object doesn't have address set yet, please set an address first.'')
        | Some addr \<Rightarrow>
            if toLowerCase eventName = ''allevents'' then Inr (opts\<lparr>glo_address := Some addr\<rparr>)
            else
              (case find (\<lambda>json. abi_type json = ''event''
                            \<and> (abi_name json = Some eventName
                                \<or> abi_signature json = Some (''0x'' @ replace0x eventName)))
                      (jsonInterface this) of
                 None \<Rightarrow> Inl (Error (''Event \"'' @ eventName @ ''\" doesn't exist in this contract.''))
               | Some ev \<Rightarrow>
                  map_sum id (\<lambda>ts. opts\<lparr>glo_address := Some addr, glo_topics := Some ts\<rparr>)
                    (getEventTopics CI ev opts)))"

definition getPastEvents ::
  "'p ContractImports \<Rightarrow> Contract \<Rightarrow> string option \<Rightarrow> GetLogOptions \<Rightarrow> 'p Eth
    \<Rightarrow> (error + EventLog list) \<times> 'p Eth"
where
  "getPastEvents CI this ev opts eth =
    (case getLogOptions CI this ev opts of
       Inl e \<Rightarrow> (Inl e, eth)
     | Inr logOptions \<Rightarrow>
        (case getPastLogs CI logOptions eth of
           (Inl e, eth') \<Rightarrow> (Inl e, eth')
         | (Inr result, eth') \<Rightarrow> (mapE (decodeAnyEvent CI (jsonInterface this)) result, eth')))"

text \<open>
  \<^verbatim>\<open>on(event, options)\<close>, the event subscription behind \<^verbatim>\<open>contract.events\<close>. The
  promise of \<^verbatim>\<open>getPastLogs\<close> is run to its end before the result is read: its
  \<^verbatim>\<open>then\<close> branch emits the past logs as \<^verbatim>\<open>data\<close> and subscribes, its \<^verbatim>\<open>catch\<close>
  branch emits \<^verbatim>\<open>error\<close>. The caller's callback receives what is emitted and is not
  modelled apart from it.
\<close>

fun emitPast ::
  "(LogResponse \<Rightarrow> error + EventLog) \<Rightarrow> LogResponse list \<Rightarrow> Subscription \<Rightarrow> error option \<times> Subscription"
where
  "emitPast decode [] sub = (None, sub)"
| "emitPast decode (l # ls) sub =
     (case decode l of
        Inl e \<Rightarrow> (Some e, sub)
      | Inr output \<Rightarrow> emitPast decode ls (sub\<lparr>sub_emitted := sub_emitted sub @ [Data output]\<rparr>))"

definition Contract_on ::
  "'p ContractImports \<Rightarrow> Contract \<Rightarrow> string \<Rightarrow> GetLogOptions \<Rightarrow> 'p Eth
    \<Rightarrow> (error + Subscription) \<times> 'p Eth"
where
  "Contract_on CI this ev opts eth =
    (case getLogOptions CI this (Some ev) opts of
       Inl e \<Rightarrow> (Inl e, eth)
     | Inr logOptions \<Rightarrow>
        (case inputLogFormatter CI (logOptions\<lparr>glo_fromBlock := None\<rparr>) of
           Inl e \<Rightarrow> (Inl e, eth)
         | Inr p \<Rightarrow>
            (let subscription =
                   \<lparr>sub_type = ''eth'', sub_subscription = ''logs'', sub_params = [p],
                    sub_emitted = []\<rparr>
             in case glo_fromBlock logOptions of
                  None \<Rightarrow> subscribe CI subscription eth
                | Some fromBlock \<Rightarrow>
                   (case getPastLogs CI logOptions eth of
                      (Inl err, eth') \<Rightarrow>
                        (Inr (subscription\<lparr>sub_emitted := [Failed err]\<rparr>), eth')
                    | (Inr pastLogs, eth') \<Rightarrow>
                       (case emitPast (decodeAnyEvent CI (jsonInterface this)) pastLogs subscription of
                          (Some err, sub') \<Rightarrow>
                            (Inr (sub'\<lparr>sub_emitted := sub_emitted sub' @ [Failed err]\<rparr>), eth')
                        | (None, sub') \<Rightarrow>
                           (case subscribe CI sub' eth' of
                              (Inl err, eth'') \<Rightarrow>
                                (Inr (sub'\<lparr>sub_emitted := sub_emitted sub' @ [Failed err]\<rparr>), eth'')
                            | (Inr sub'', eth'') \<Rightarrow> (Inr sub'', eth'')))))))"

text \<open>
  \<^verbatim>\<open>receiptFormatter\<close>. The loop over the decoded events is \<open>groupEvents\<close>, with
  \<^verbatim>\<open>receipt.events\<close> (\<open>es\<close>, created as \<^verbatim>\<open>{}\<close>) and \<^verbatim>\<open>receipt.unnamedEvents\<close> (\<open>us\<close>) as
  it goes. \<^verbatim>\<open>receipt.events[ev.event] || []\<close> reads an own array when there is one;
  for a name that \<^verbatim>\<open>{}\<close> inherits from \<^verbatim>\<open>Object.prototype\<close> it reads the inherited
  member, which is truthy and not iterable, so the spread \<^verbatim>\<open>[...events, ev]\<close> throws a
  \<^verbatim>\<open>TypeError\<close>. An event whose name is absent or empty is falsy. When the formatter
  throws, the caller gets the exception and no receipt.
\<close>

fun groupEvents ::
  "EventLog list \<Rightarrow> (string \<rightharpoonup> EventLog list) \<Rightarrow> EventLog list
    \<Rightarrow> error + (string \<rightharpoonup> EventLog list) \<times> EventLog list"
where
  "groupEvents [] es us = Inr (es, us)"
| "groupEvents (ev # evs) es us =
     (case event ev of
        None \<Rightarrow> groupEvents evs es (us @ [ev])
      | Some name \<Rightarrow>
         if name = [] then groupEvents evs es (us @ [ev])
         else
           (case es name of
              Some prev \<Rightarrow> groupEvents evs (es(name \<mapsto> prev @ [ev])) us
            | None \<Rightarrow>
               if name \<in> set objectPrototypeKeys then Inl TypeError
               else groupEvents evs (es(name \<mapsto> [ev])) us))"

definition receiptFormatter ::
  "'p ContractImports \<Rightarrow> Contract \<Rightarrow> 'r TransactionReceipt \<Rightarrow> error + 'r TransactionReceipt"
where
  "receiptFormatter CI this receipt =
    (case logs receipt of
       None \<Rightarrow> Inr receipt
     | Some ls \<Rightarrow>
        (case mapE (decodeAnyEvent CI (jsonInterface this)) ls of
           Inl e \<Rightarrow> Inl e
         | Inr decodedEvents \<Rightarrow>
            (case groupEvents decodedEvents Map.empty [] of
               Inl e \<Rightarrow> Inl e
             | Inr (es, us) \<Rightarrow>
                Inr (receipt\<lparr>events := Some es, unnamedEvents := Some us, logs := None\<rparr>))))"

text \<open>
  What the grouping is expected to yield: under each non-empty name the events of that
  name, in the order of the logs, after what was there; and the events without a name.
\<close>

definition nameless :: "EventLog \<Rightarrow> bool" where
  "nameless ev = (case event ev of None \<Rightarrow> True | Some n \<Rightarrow> n = [])"

definition grouped ::
  "EventLog list \<Rightarrow> (string \<rightharpoonup> EventLog list) \<Rightarrow> (string \<rightharpoonup> EventLog list)"
where
  "grouped evs es = (\<lambda>n.
     if n = [] then es n
     else if filter (\<lambda>ev. event ev = Some n) evs = [] then es n
     else Some ((case es n of None \<Rightarrow> [] | Some p \<Rightarrow> p) @ filter (\<lambda>ev. event ev = Some n) evs))"

section \<open>A concrete provider and contract\<close>

text \<open>
  The instances at which the theorems below are exercised. The formatters read the
  wire format of section 6: an address is the 0x-prefixed hex of 20 bytes, a quantity
  0x-prefixed hex, data 0x-prefixed hex bytes; a field that is present and does not
  read is refused. \<open>echoEnv\<close> is an interpreter for a world without code: a frame
  never reverts, uses no gas and returns its input data. The chain starts with the
  genesis block and one funded account, address 1.
\<close>

fun hexNat :: "nat \<Rightarrow> string \<Rightarrow> nat option" where
  "hexNat acc [] = Some acc"
| "hexNat acc (c # cs) = (case hexVal c of None \<Rightarrow> None | Some d \<Rightarrow> hexNat (16 * acc + d) cs)"

definition readQuantity :: "string \<Rightarrow> nat option" where
  "readQuantity s = (if take 2 s = ''0x'' \<and> drop 2 s \<noteq> [] then hexNat 0 (drop 2 s) else None)"

definition readAddress :: "string \<Rightarrow> Address option" where
  "readAddress s = (if length s = 42 then map_option of_nat (readQuantity s) else None)"

definition field ::
  "(string \<Rightarrow> 'a option) \<Rightarrow> (string \<times> jsval) list \<Rightarrow> string \<Rightarrow> error + 'a option"
where
  "field read kvs k =
    (case map_of kvs k of
       None \<Rightarrow> Inr None
     | Some (JStr s) \<Rightarrow> (case read s of None \<Rightarrow> Inl BadParams | Some v \<Rightarrow> Inr (Some v))
     | Some _ \<Rightarrow> Inl BadParams)"

definition readTransaction :: "jsval \<Rightarrow> error + Transaction" where
  "readTransaction raw =
    (case raw of
       JObj kvs \<Rightarrow>
        (case (field readAddress kvs ''from'', field readAddress kvs ''to'',
               field readQuantity kvs ''value'', field readQuantity kvs ''gas'',
               field readQuantity kvs ''gasPrice'', field hexToBuffer kvs ''data'',
               field readQuantity kvs ''nonce'') of
           (Inr sender, Inr target, Inr v, Inr g, Inr gp, Inr d, Inr n) \<Rightarrow>
             Inr \<lparr>tx_from = sender, tx_to = target,
                  tx_value = (case v of Some x \<Rightarrow> x | None \<Rightarrow> 0),
                  tx_gas = (case g of Some x \<Rightarrow> x | None \<Rightarrow> 0),
                  tx_gas_price = (case gp of Some x \<Rightarrow> x | None \<Rightarrow> 0),
                  tx_data = (case d of Some x \<Rightarrow> x | None \<Rightarrow> []),
                  tx_nonce = n\<rparr>
         | _ \<Rightarrow> Inl BadParams)
     | _ \<Rightarrow> Inl BadParams)"

definition readLogRequest :: "jsval \<Rightarrow> error + LogRequest" where
  "readLogRequest raw =
    (case raw of
       JObj kvs \<Rightarrow>
        (case (field readQuantity kvs ''fromBlock'', field readQuantity kvs ''toBlock'',
               field readAddress kvs ''address'') of
           (Inr (Some f), Inr (Some t), Inr a) \<Rightarrow>
             Inr \<lparr>lr_fromBlock = f, lr_toBlock = t, lr_address = a, lr_topics = None\<rparr>
         | _ \<Rightarrow> Inl BadParams)
     | _ \<Rightarrow> Inl BadParams)"

definition echoEnv :: Env where
  "echoEnv =
    \<lparr>execute = (\<lambda>ov m. \<lparr>ex_reverted = False, ex_return = m_data m, ex_gas_remaining = m_gas m,
                          ex_refunds = 0, ex_logs = [], ex_overlay = ov, ex_created = None\<rparr>),
     recoverSender = (\<lambda>tx. None),
     txHash = (\<lambda>tx. case tx_nonce tx of Some n \<Rightarrow> of_nat n | None \<Rightarrow> 0),
     blockHash = (\<lambda>b. of_nat (b_number b)),
     stateRoot = (\<lambda>ws. 0),
     emptyRoot = 0,
     emptyCodeHash = 0,
     coinbase = 0,
     timestamp = 0\<rparr>"

definition plainFormatters :: Imports where
  "plainFormatters =
    \<lparr>fromRawTransactionRequest = readTransaction,
     fromRawCallRequest = readTransaction,
     fromRawLogRequest = readLogRequest,
     toRawLogResponse = (\<lambda>l. JObj [(''blockNumber'', JStr (numberToHex (lg_block_number l))),
                                     (''transactionHash'', JStr (bufferToHex (lg_tx_hash l))),
                                     (''logIndex'', JStr (numberToHex (lg_log_index l)))]),
     toRawTransactionReceipt =
       (\<lambda>r. case r of None \<Rightarrow> JNull
             | Some x \<Rightarrow> JObj [(''transactionHash'', JStr (bufferToHex (r_tx_hash x))),
                              (''blockNumber'', JStr (numberToHex (r_block_number x))),
                              (''status'', JStr (numberToHex (r_status x)))]),
     addressFromString =
       (\<lambda>raw. case raw of
                JStr s \<Rightarrow> (case readAddress s of Some a \<Rightarrow> Inr a | None \<Rightarrow> Inl BadParams)
              | _ \<Rightarrow> Inl BadParams),
     handleSendTransaction = (\<lambda>ws bc tx. (Inl InvalidTransaction, ws, bc)),
     handleCall = (\<lambda>ws req. (Inr [], ws)),
     handleGetTransactionReceipt = (\<lambda>bc raw. (Inr None, bc)),
     getAccountCode = (\<lambda>ws a. (Inr [], ws)),
     getLogs = (\<lambda>bc req. (Inr [], bc))\<rparr>"

definition genesisProvider :: EvmProvider where
  "genesisProvider =
    \<lparr>worldState =
       \<lparr>accounts = [1 \<mapsto> \<lparr>acc_nonce = 0, acc_balance = 1000000000000,
                             acc_storage_root = hashBytes 0, acc_code_hash = hashBytes 0\<rparr>],
        storage = (\<lambda>a k. 0),
        code_store = Map.empty\<rparr>,
     blockchain =
       \<lparr>blocks = [\<lparr>b_number = 0, b_parent_hash = hashBytes 0, b_timestamp = 0,
                    b_transactions = [], b_receipts = [], b_state_root = hashBytes 0\<rparr>],
        receipt_by_tx_hash = Map.empty\<rparr>\<rparr>"

text \<open>
  A transfer of 5 from account 1 to account 2 with four bytes of data, and the same
  request with the nonce 1, one more than the nonce of account 1 (section 8,
  scenario 6).
\<close>

definition rawTransfer :: jsval where
  "rawTransfer =
    JObj [(''from'', JStr ''0x0000000000000000000000000000000000000001''),
          (''to'', JStr ''0x0000000000000000000000000000000000000002''),
          (''value'', JStr ''0x5''), (''gas'', JStr ''0x5208''), (''gasPrice'', JStr ''0xc350''),
          (''data'', JStr ''0xa9059cbb'')]"

definition transferTx :: Transaction where
  "transferTx =
    \<lparr>tx_from = Some 1, tx_to = Some 2, tx_value = 5, tx_gas = 21000, tx_gas_price = 50000,
     tx_data = [0xa9, 0x05, 0x9c, 0xbb], tx_nonce = None\<rparr>"


text \<open>
  A decoder that names a log after the ABI event whose signature is the log's first
  topic, and leaves it without a name when there is none; the selectors of the two
  overloads of \<^verbatim>\<open>transfer\<close>; a token contract with these overloads and an event named
  \<^verbatim>\<open>toString\<close>. Calling the inherited \<^verbatim>\<open>toString\<close> without a receiver yields the string
  \<^verbatim>\<open>[object Undefined]\<close>; no other inherited member is called in what follows, and
  the instance has them throw.
\<close>

definition decodeBySignature :: "AbiDefinition list \<Rightarrow> LogResponse \<Rightarrow> error + EventLog" where
  "decodeBySignature abi l =
    (case log_topics (lg_log l) of
       [] \<Rightarrow> Inr \<lparr>event = None, returnValues = JObj [], sourceLog = l\<rparr>
     | t # ts \<Rightarrow>
        (case find (\<lambda>d. abi_type d = ''event'' \<and> abi_signature d = Some (bufferToHex t)) abi of
           None \<Rightarrow> Inr \<lparr>event = None, returnValues = JObj [], sourceLog = l\<rparr>
         | Some d \<Rightarrow> Inr \<lparr>event = abi_name d, returnValues = JObj [], sourceLog = l\<rparr>))"

fun joinTypes :: "AbiInput list \<Rightarrow> string" where
  "joinTypes [] = []"
| "joinTypes [i] = in_type i"
| "joinTypes (i # j # rest) = in_type i @ '','' @ joinTypes (j # rest)"

definition fullName :: "AbiDefinition \<Rightarrow> error + string" where
  "fullName d =
    Inr ((case abi_name d of Some n \<Rightarrow> n | None \<Rightarrow> ''undefined'') @ ''('' @
         joinTypes (case abi_inputs d of Some ins \<Rightarrow> ins | None \<Rightarrow> []) @ '')'')"

definition selector :: "string \<Rightarrow> error + string" where
  "selector s =
    Inr (case map_of [(''transfer(address)'', ''0x1a695230''),
                      (''transfer(address,uint256)'', ''0xa9059cbb''),
                      (''toString(uint256)'', ''0x6900a3ae'')] s of
           Some sig \<Rightarrow> sig
         | None \<Rightarrow> ''0x00000000'')"

definition plainContractImports :: "EvmProvider ContractImports" where
  "plainContractImports =
    \<lparr>providerSend = send (specHandlers echoEnv plainFormatters),
     requestGetPastLogs =
       (\<lambda>opts. Inr (''eth_getLogs'',
                     Some [JObj [(''fromBlock'', JStr ''0x0''), (''toBlock'', JStr ''0x0'')]],
                     (\<lambda>v. Inr []))),
     inputLogFormatter = (\<lambda>opts. Inr (JObj [])),
     decodeAnyEvent = decodeBySignature,
     encodeParameter = (\<lambda>t v. Inr v),
     subscribe =
       (\<lambda>sub eth. (Inr sub,
                    eth\<lparr>requests := requests eth @ [(''eth_subscribe'', Some (sub_params sub))]\<rparr>)),
     abiMethodToString = fullName,
     encodeFunctionSignature = selector,
     callInherited =
       (\<lambda>k args. if k = ''toString'' then Inr (Returned (JStr ''[object Undefined]''))
                  else Inl TypeError),
     reparentedGet = (\<lambda>k. Inr None),
     reparentedSet = (\<lambda>k. Assigned)\<rparr>"

definition transfer1 :: AbiDefinition where
  "transfer1 =
    \<lparr>abi_type = ''function'', abi_name = Some ''transfer'',
     abi_inputs = Some [\<lparr>in_name = ''dst'', in_type = ''address'', in_indexed = None\<rparr>],
     abi_signature = Some ''0x1a695230'', abi_anonymous = None\<rparr>"

definition transfer2 :: AbiDefinition where
  "transfer2 =
    \<lparr>abi_type = ''function'', abi_name = Some ''transfer'',
     abi_inputs = Some [\<lparr>in_name = ''dst'', in_type = ''address'', in_indexed = None\<rparr>,
                        \<lparr>in_name = ''wad'', in_type = ''uint256'', in_indexed = None\<rparr>],
     abi_signature = Some ''0xa9059cbb'', abi_anonymous = None\<rparr>"

definition toStringFunction :: AbiDefinition where
  "toStringFunction =
    \<lparr>abi_type = ''function'', abi_name = Some ''toString'',
     abi_inputs = Some [\<lparr>in_name = ''value'', in_type = ''uint256'', in_indexed = None\<rparr>],
     abi_signature = Some ''0x6900a3ae'', abi_anonymous = None\<rparr>"

definition toStringEvent :: AbiDefinition where
  "toStringEvent =
    \<lparr>abi_type = ''event'', abi_name = Some ''toString'',
     abi_inputs = Some [], abi_signature = Some (bufferToHex (replicate 32 1)),
     abi_anonymous = None\<rparr>"

definition tokenContract :: "Address option \<Rightarrow> Contract" where
  "tokenContract a =
    \<lparr>jsonInterface = [transfer1, transfer2, toStringEvent], address = a,
     options = \<lparr>opt_from = None, opt_gasPrice = None, opt_gas = None\<rparr>, wallet = None\<rparr>"

definition genesisEth :: "EvmProvider Eth" where
  "genesisEth = \<lparr>provider = genesisProvider, requests = []\<rparr>"

definition noLogOptions :: GetLogOptions where
  "noLogOptions = \<lparr>glo_filter = None, glo_fromBlock = None, glo_toBlock = None,
                    glo_address = None, glo_topics = None\<rparr>"

definition toStringLog :: LogResponse where
  "toStringLog =
    \<lparr>lg_log = \<lparr>log_address = 7, log_topics = [replicate 32 1], log_data = []\<rparr>,
     lg_block_number = 1, lg_tx_hash = replicate 32 0, lg_log_index = 0\<rparr>"



section \<open>Properties of the hex encodings\<close>

lemma numberToHex_50000: "numberToHex 50000 = ''0xc350''"
  by (simp add: numberToHex_def hexDigit_def hexDigits.simps)







lemma bufferToHex_prefix: "take 2 (bufferToHex bs) = ''0x''"
  by (simp add: bufferToHex_def)


section \<open>Properties of the dispatcher\<close>

text \<open>
  C1, as amended. For a method that is none of the implemented ones, \<^verbatim>\<open>send\<close> does not
  fail with \<open>MethodNotFound\<close>: when the params are present and their first element is
  truthy, the second \<^verbatim>\<open>switch\<close> matches nothing, the call returns \<^verbatim>\<open>undefined\<close>
  normally and the provider is unchanged; when the params are absent, empty or start
  with a falsy element, the call throws the \<open>Error\<close> with the empty message.
\<close>

theorem send_unknown_method:
  assumes "method \<notin> set implementedMethods"
  shows "send I this method params =
    (case params of
       None \<Rightarrow> (Inl (Error []), this)
     | Some ps \<Rightarrow> if truthy (index0 ps) then (Inr JUndefined, this) else (Inl (Error []), this))"
  using assms by (simp add: send_def implementedMethods_def split: option.split)

theorem send_unknown_method_witness:
  "send plainFormatters genesisProvider ''eth_blockNumber'' (Some [JObj []]) =
     (Inr JUndefined, genesisProvider)
   \<and> send plainFormatters genesisProvider ''eth_blockNumber'' (Some []) =
     (Inl (Error []), genesisProvider)
   \<and> send plainFormatters genesisProvider ''eth_blockNumber'' None =
     (Inl (Error []), genesisProvider)"
  using send_unknown_method [of "''eth_blockNumber''" plainFormatters genesisProvider "Some [JObj []]"]
    send_unknown_method [of "''eth_blockNumber''" plainFormatters genesisProvider "Some []"]
    send_unknown_method [of "''eth_blockNumber''" plainFormatters genesisProvider None]
  by (simp add: implementedMethods_def)

text \<open>
  C1 as stated fails: \<^verbatim>\<open>eth_blockNumber\<close> is not an implemented method, and
  \<^verbatim>\<open>send('eth_blockNumber', [{}])\<close> returns \<^verbatim>\<open>undefined\<close> instead of failing with
  \<open>MethodNotFound\<close>.
\<close>

theorem send_unknown_method_counterexample:
  "''eth_blockNumber'' \<notin> set implementedMethods
   \<and> fst (send plainFormatters genesisProvider ''eth_blockNumber'' (Some [JObj []])) = Inr JUndefined
   \<and> fst (send plainFormatters genesisProvider ''eth_blockNumber'' (Some [JObj []]))
       \<noteq> Inl MethodNotFound"
  by (simp add: send_def implementedMethods_def)

text \<open>
  C2. Whatever the params argument is (absent, empty or not), \<^verbatim>\<open>send\<close> with the
  method \<^verbatim>\<open>eth_gasPrice\<close> returns, without error and without touching the provider,
  the hex quantity of the constant 50000, which is \<^verbatim>\<open>0xc350\<close>; no imported handler
  has a part in it.
\<close>

theorem send_gasPrice_fixed:
  "send I this ''eth_gasPrice'' params = (Inr (JStr (numberToHex 50000)), this)
   \<and> numberToHex 50000 = ''0xc350''"
  by (simp add: send_def numberToHex_50000)

text \<open>
  C3. For every method other than \<^verbatim>\<open>eth_gasPrice\<close>, when the params are absent or
  their first element is falsy (an empty array reads \<^verbatim>\<open>undefined\<close>), \<^verbatim>\<open>send\<close> throws
  the \<open>Error\<close> with the empty message. The result is the same for all imports, so no
  handler or formatter is reached, and the provider is unchanged.
\<close>

theorem send_missing_params:
  assumes "method \<noteq> ''eth_gasPrice''"
  shows "send I this method None = (Inl (Error []), this)
    \<and> (\<forall>ps. \<not> truthy (index0 ps) \<longrightarrow> send I this method (Some ps) = (Inl (Error []), this))"
  using assms by (simp add: send_def)

theorem send_missing_params_witness:
  "send plainFormatters genesisProvider ''eth_call'' None = (Inl (Error []), genesisProvider)
   \<and> send plainFormatters genesisProvider ''eth_call'' (Some []) = (Inl (Error []), genesisProvider)
   \<and> send plainFormatters genesisProvider ''eth_call'' (Some [JNum 0, JStr ''latest'']) =
     (Inl (Error []), genesisProvider)"
  using send_missing_params [of "''eth_call''" plainFormatters genesisProvider]
  by simp

text \<open>
  C7. For every notification and every listener, \<^verbatim>\<open>on\<close>, \<^verbatim>\<open>removeListener\<close> and
  \<^verbatim>\<open>removeAllListeners\<close> of the provider throw the error
  \<^verbatim>\<open>Method not implemented.\<close>; none returns a provider, so no subscription is
  registered.
\<close>

theorem subscription_methods_throw:
  "EvmProvider_on this notification listener = Inl (Error ''Method not implemented.'')
   \<and> removeListener this notification listener = Inl (Error ''Method not implemented.'')
   \<and> removeAllListeners this notification = Inl (Error ''Method not implemented.'')"
  by (simp add: EvmProvider_on_def removeListener_def removeAllListeners_def)

section \<open>Properties of the dispatcher over the specified handlers\<close>




lemma rawTransfer_read: "readTransaction rawTransfer = Inr transferTx"
  by (simp add: readTransaction_def rawTransfer_def transferTx_def field_def readAddress_def
      readQuantity_def hexToBuffer_def hexVal_def)




text \<open>
  C5. For every call request and whatever follows it in the params (the block
  parameter), \<^verbatim>\<open>send('eth_call', [callreq, block])\<close> returns the return data of the
  execution as a 0x-prefixed hex string and the provider is as before: world state
  and blockchain, so no account, storage, code, block or receipt differs. The
  blockchain is not even passed to \<^verbatim>\<open>handleCall\<close>: whatever the imported handlers
  are, \<^verbatim>\<open>eth_call\<close> leaves it unchanged.
\<close>

theorem call_returns_data_unchanged:
  assumes "truthy raw" and "fromRawCallRequest F raw = Inr req"
  shows "send (specHandlers E F) this ''eth_call'' (Some (raw # rest)) =
      (Inr (JStr (bufferToHex (ex_return (execute E (worldState this) (callMessage req))))), this)
    \<and> take 2 (bufferToHex (ex_return (execute E (worldState this) (callMessage req)))) = ''0x''
    \<and> blockchain (snd (send I this ''eth_call'' params)) = blockchain this"
proof -
  have "blockchain (snd (send I this ''eth_call'' params)) = blockchain this"
    by (simp add: send_def split: option.split sum.split prod.split)
  then show ?thesis
    using assms by (simp add: send_def specHandlers_def handleCall_spec_def bufferToHex_prefix)
qed

theorem call_returns_data_unchanged_witness:
  "send (specHandlers echoEnv plainFormatters) genesisProvider ''eth_call''
      (Some [rawTransfer, JStr ''latest'']) =
     (Inr (JStr ''0xa9059cbb''), genesisProvider)"
proof -
  have raw: "truthy rawTransfer"
    by (simp add: rawTransfer_def)
  have fmt: "fromRawCallRequest plainFormatters rawTransfer = Inr transferTx"
    by (simp add: plainFormatters_def rawTransfer_read)
  show ?thesis
    using call_returns_data_unchanged [OF raw fmt, of echoEnv genesisProvider "[JStr ''latest'']"]
    by (simp add: echoEnv_def callMessage_def transferTx_def bufferToHex_def byteToHex_def
        hexDigit_def)
qed

text \<open>
  C6. For every log filter whose \<open>fromBlock\<close> is strictly greater than its \<open>toBlock\<close>,
  \<^verbatim>\<open>send('eth_getLogs', [filter])\<close> fails with \<open>BadFilter\<close>: no logs are returned and
  the provider is as before.
\<close>

theorem getLogs_bad_filter:
  assumes "truthy raw" and "fromRawLogRequest F raw = Inr req"
    and "lr_toBlock req < lr_fromBlock req"
  shows "send (specHandlers E F) this ''eth_getLogs'' (Some (raw # rest)) = (Inl BadFilter, this)"
  using assms by (simp add: send_def specHandlers_def getLogs_spec_def)

theorem getLogs_bad_filter_witness:
  "send (specHandlers echoEnv plainFormatters) genesisProvider ''eth_getLogs''
      (Some [JObj [(''fromBlock'', JStr ''0x5''), (''toBlock'', JStr ''0x2'')]]) =
     (Inl BadFilter, genesisProvider)"
proof -
  have raw: "truthy (JObj [(''fromBlock'', JStr ''0x5''), (''toBlock'', JStr ''0x2'')])"
    by simp
  have fmt: "fromRawLogRequest plainFormatters
        (JObj [(''fromBlock'', JStr ''0x5''), (''toBlock'', JStr ''0x2'')]) =
      Inr \<lparr>lr_fromBlock = 5, lr_toBlock = 2, lr_address = None, lr_topics = None\<rparr>"
    by (simp add: plainFormatters_def readLogRequest_def field_def readQuantity_def hexVal_def)
  show ?thesis
    using getLogs_bad_filter [OF raw fmt, of echoEnv genesisProvider "[]"]
    by simp
qed

section \<open>Properties of the contract facade\<close>

text \<open>
  C8. On a contract whose address is unset, a method produced by
  \<^verbatim>\<open>executorFactory\<close> throws \<^verbatim>\<open>No contract address.\<close> for every definition, every
  next overload and every argument list, so before the argument count is looked at;
  \<^verbatim>\<open>getPastEvents\<close> and the event subscription \<^verbatim>\<open>on\<close> throw as well, and the
  \<^verbatim>\<open>Eth\<close> object, with the list of the requests issued, is as before.
\<close>

theorem addressless_contract_throws:
  assumes "address this = None"
  shows "executorFactory definition nextOverload this args = Inl (Error ''No contract address.'')
    \<and> getPastEvents CI this ev opts eth =
        (Inl (Error ''This contract object doesn't have address set yet, please set an address first.''),
         eth)
    \<and> Contract_on CI' this ev' opts' eth' =
        (Inl (Error ''This contract object doesn't have address set yet, please set an address first.''),
         eth')"
  using assms
  by (simp add: executorFactory_def getPastEvents_def Contract_on_def getLogOptions_def)

theorem addressless_contract_throws_witness:
  "executorFactory transfer1 None (tokenContract None) [] = Inl (Error ''No contract address.'')
   \<and> executorFactory transfer1 None (tokenContract None) [JNum 1] =
       Inl (Error ''No contract address.'')
   \<and> getPastEvents plainContractImports (tokenContract None) (Some ''Transfer'') noLogOptions
        genesisEth =
        (Inl (Error ''This contract object doesn't have address set yet, please set an address first.''),
         genesisEth)
   \<and> Contract_on plainContractImports (tokenContract None) ''allevents'' noLogOptions genesisEth =
        (Inl (Error ''This contract object doesn't have address set yet, please set an address first.''),
         genesisEth)"
proof -
  have a: "address (tokenContract None) = None"
    by (simp add: tokenContract_def)
  show ?thesis
    using addressless_contract_throws [OF a, of transfer1 None "[]" plainContractImports
        "Some ''Transfer''" noLogOptions genesisEth plainContractImports "''allevents''" noLogOptions
        genesisEth]
      addressless_contract_throws [OF a, of transfer1 None "[JNum 1]" plainContractImports
        "Some ''Transfer''" noLogOptions genesisEth plainContractImports "''allevents''" noLogOptions
        genesisEth]
    by simp
qed






lemma signed_transfer2: "signedMethod plainContractImports transfer2 =
    Inr (''transfer(address,uint256)'', ''0xa9059cbb'', transfer2)"
  by (simp add: signedMethod_def plainContractImports_def fullName_def selector_def transfer2_def)






text \<open>
  Left out of C9: a function named like a member of \<^verbatim>\<open>Object.prototype\<close>. For the first
  function of such a name \<^verbatim>\<open>!methods[name]\<close> is false, since \<^verbatim>\<open>{}\<close> inherits the
  member, and the member becomes the next overload: a call with a wrong argument
  count is answered by the inherited member and \<open>InvalidNumberOfParams\<close> is not
  thrown. For a function \<^verbatim>\<open>toString(uint256)\<close> the call without arguments returns the
  string \<^verbatim>\<open>[object Undefined]\<close>.
\<close>

lemma generatedMethod_inherited_name:
  assumes "address this = Some addr" and "abi_inputs method = Some ins"
    and "reparented methods = False" and "own methods (methodName method) = None"
    and "methodName method \<in> set objectPrototypeKeys" and "length args \<noteq> length ins"
  shows "\<exists>f. generatedMethod CI methods method = Inr f
    \<and> f this args = callInherited CI (methodName method) args"
  using assms by (simp add: generatedMethod_def objGet_def executorFactory_def)

lemma toString_wrong_count:
  "\<exists>m f. getMethods plainContractImports [toStringFunction] = Inr m
    \<and> own m ''toString'' = Some f
    \<and> f (tokenContract (Some 7)) [] = Inr (Returned (JStr ''[object Undefined]''))"
  by (simp add: getMethods_def registerMethod_def signedMethod_def generatedMethod_def objGet_def
      objSet_def methodName_def executorFactory_def plainContractImports_def fullName_def
      selector_def toStringFunction_def tokenContract_def objectPrototypeKeys_def)

text \<open>
  The grouping of \<^verbatim>\<open>receiptFormatter\<close>, for decoded events none of which is named
  like a member of \<^verbatim>\<open>Object.prototype\<close>: the receipt comes back with the named
  events under their names in log order, the nameless ones in \<open>unnamedEvents\<close>, and no
  \<open>logs\<close>. A receipt without a \<open>logs\<close> array comes back as it is.
\<close>

lemma groupEvents_grouped:
  assumes "\<forall>ev\<in>set evs. \<forall>n. event ev = Some n \<longrightarrow> n \<notin> set objectPrototypeKeys"
  shows "groupEvents evs es us = Inr (grouped evs es, us @ filter nameless evs)"
  using assms
proof (induction evs arbitrary: es us)
  case Nil
  show ?case by (simp add: grouped_def fun_eq_iff)
next
  case (Cons ev evs)
  have others: "\<forall>ev\<in>set evs. \<forall>n. event ev = Some n \<longrightarrow> n \<notin> set objectPrototypeKeys"
    using Cons.prems by simp
  note IH = Cons.IH [OF others]
  show ?case
  proof (cases "event ev")
    case None
    then have "grouped (ev # evs) es = grouped evs es"
      by (simp add: grouped_def fun_eq_iff)
    with None show ?thesis
      by (simp add: IH nameless_def)
  next
    case (Some name)
    show ?thesis
    proof (cases "name = []")
      case True
      with Some have "grouped (ev # evs) es = grouped evs es"
        by (auto simp add: grouped_def fun_eq_iff)
      with Some True show ?thesis
        by (simp add: IH nameless_def)
    next
      case False
      have notproto: "name \<notin> set objectPrototypeKeys"
        using Cons.prems Some by simp
      have nl: "\<not> nameless ev"
        using Some False by (simp add: nameless_def)
      have fl: "filter nameless (ev # evs) = filter nameless evs"
        using nl by simp
      show ?thesis
      proof (cases "es name")
        case None
        have eq: "grouped evs (es(name \<mapsto> [ev])) = grouped (ev # evs) es"
          using Some False None by (auto simp add: grouped_def fun_eq_iff)
        have step: "groupEvents (ev # evs) es us = groupEvents evs (es(name \<mapsto> [ev])) us"
          using Some False None notproto by simp
        show ?thesis
          unfolding step IH eq fl ..
      next
        case (Some prev)
        have eq: "grouped evs (es(name \<mapsto> prev @ [ev])) = grouped (ev # evs) es"
          using \<open>event ev = Some name\<close> False Some by (auto simp add: grouped_def fun_eq_iff)
        have step: "groupEvents (ev # evs) es us = groupEvents evs (es(name \<mapsto> prev @ [ev])) us"
          using \<open>event ev = Some name\<close> False Some by simp
        show ?thesis
          unfolding step IH eq fl ..
      qed
    qed
  qed
qed

lemma receiptFormatter_groups:
  assumes "logs receipt = Some ls"
    and "mapE (decodeAnyEvent CI (jsonInterface this)) ls = Inr evs"
    and "\<forall>ev\<in>set evs. \<forall>n. event ev = Some n \<longrightarrow> n \<notin> set objectPrototypeKeys"
  shows "receiptFormatter CI this receipt =
    Inr (receipt\<lparr>events := Some (grouped evs Map.empty),
                 unnamedEvents := Some (filter nameless evs), logs := None\<rparr>)"
  using assms(1,2) groupEvents_grouped [OF assms(3), of Map.empty "[]"]
  by (simp add: receiptFormatter_def)

lemma receiptFormatter_no_logs:
  "logs receipt = None \<Longrightarrow> receiptFormatter CI this receipt = Inr receipt"
  by (simp add: receiptFormatter_def)

text \<open>
  C10 does not hold of the code for every receipt. The contract declares an event
  named \<^verbatim>\<open>toString\<close>; a receipt whose one log decodes to that event makes
  \<^verbatim>\<open>receiptFormatter\<close> throw a \<open>TypeError\<close>, where the claim has the event grouped under
  \<^verbatim>\<open>receipt.events.toString\<close> and the receipt returned without its logs.
\<close>

theorem receiptFormatter_inherited_name:
  "decodeAnyEvent plainContractImports (jsonInterface (tokenContract (Some 7))) toStringLog =
     Inr \<lparr>event = Some ''toString'', returnValues = JObj [], sourceLog = toStringLog\<rparr>
   \<and> receiptFormatter plainContractImports (tokenContract (Some 7))
       \<lparr>otherFields = (), logs = Some [toStringLog], events = None, unnamedEvents = None\<rparr> =
     Inl TypeError"
  by (simp add: receiptFormatter_def plainContractImports_def decodeBySignature_def toStringLog_def
      tokenContract_def transfer1_def transfer2_def toStringEvent_def objectPrototypeKeys_def)

end
